theory Spec2Isabelle
  imports Complex_Main
begin

section \<open>JavaScript values used by the client\<close>

text \<open>
  The sources are TypeScript: the API client (\<open>lib/api.ts\<close>, the class \<open>APIClient\<close>
  with its request and response interfaces; its text stands in \<open>pages/ImageEditing.tsx\<close>
  after the page of that name) and the pages \<open>Chat.tsx\<close> and \<open>ImageGeneration.tsx\<close>
  that call it. Strings are \<open>string\<close> (lists of 8-bit
  characters, so only the Latin-1 part of a JavaScript string), a \<open>number\<close> is a
  rational (no source function below computes with numbers: they are stored, compared
  with zero for truthiness and passed on), an optional field \<open>f?: T\<close> is an
  \<open>option\<close>, and a thrown exception or rejected promise is the \<open>Inl\<close> of a sum.
  Since Isabelle record fields are global names, the fields of each interface carry a
  short prefix of the interface (\<open>ig_\<close> for \<open>ImageGenerationRequest\<close>, \<open>ie_\<close> for
  \<open>ImageEditRequest\<close> and so on); the name after the prefix is the source's.
\<close>

type_synonym number = rat

record Blob =
  blob_type :: string
  blob_bytes :: "nat list"

record File = Blob +
  file_name :: string

text \<open>
  Values whose TypeScript type is \<open>any\<close> (the body of an error response, the argument
  of a toast): \<open>undefined\<close>, \<open>null\<close>, primitives, arrays, plain objects as
  association lists, and blobs.
\<close>

datatype JsValue =
    JUndefined
  | JNull
  | JBool bool
  | JNumber number
  | JString string
  | JArray "JsValue list"
  | JObject "(string \<times> JsValue) list"
  | JBlob Blob

text \<open>Truthiness, as \<open>||\<close> and \<open>if (...)\<close> test it.\<close>

fun truthy :: "JsValue \<Rightarrow> bool" where
  "truthy JUndefined = False"
| "truthy JNull = False"
| "truthy (JBool b) = b"
| "truthy (JNumber n) = (n \<noteq> 0)"
| "truthy (JString s) = (s \<noteq> [])"
| "truthy (JArray vs) = True"
| "truthy (JObject kvs) = True"
| "truthy (JBlob b) = True"

text \<open>
  \<open>v?.k\<close>: \<open>undefined\<close> when \<open>v\<close> is \<open>undefined\<close> or \<open>null\<close>, the property otherwise
  (\<open>undefined\<close> when there is none; the primitives and blobs met here have no property
  of the names the code reads on them).
\<close>

fun opt_prop :: "JsValue \<Rightarrow> string \<Rightarrow> JsValue" where
  "opt_prop (JObject kvs) k = (case map_of kvs k of Some v \<Rightarrow> v | None \<Rightarrow> JUndefined)"
| "opt_prop v k = JUndefined"

text \<open>\<open>a || b\<close> on values.\<close>

definition js_or :: "JsValue \<Rightarrow> JsValue \<Rightarrow> JsValue" where
  "js_or a b = (if truthy a then a else b)"

text \<open>
  \<open>String.prototype.trim\<close>: the white space of the Latin-1 range is tab, line feed,
  vertical tab, form feed, carriage return, space and no-break space.
\<close>

definition is_js_whitespace :: "char \<Rightarrow> bool" where
  "is_js_whitespace c = ((of_char c :: nat) \<in> {9, 10, 11, 12, 13, 32, 160})"

definition js_trim :: "string \<Rightarrow> string" where
  "js_trim s = rev (dropWhile is_js_whitespace (rev (dropWhile is_js_whitespace s)))"

text \<open>\<open>s.split(sep)\<close> for a one-character separator: never an empty array.\<close>

fun js_split :: "char \<Rightarrow> string \<Rightarrow> string list" where
  "js_split sep [] = [[]]"
| "js_split sep (c # cs) =
     (if c = sep then [] # js_split sep cs
      else (case js_split sep cs of
              x # xs \<Rightarrow> (c # x) # xs
            | [] \<Rightarrow> [[c]]))"

text \<open>\<open>xs.pop()\<close> read for its value: \<open>undefined\<close> on an empty array.\<close>

definition js_pop :: "'a list \<Rightarrow> 'a option" where
  "js_pop xs = (if xs = [] then None else Some (last xs))"

text \<open>\<open>xs.slice(0, -1)\<close>: all but the last element, the empty array staying empty.\<close>

definition slice_0_minus1 :: "'a list \<Rightarrow> 'a list" where
  "slice_0_minus1 xs = take (length xs - 1) xs"

section \<open>The request and response interfaces of \<open>lib/api.ts\<close>\<close>

record ImageGenerationRequest =
  ig_prompt :: string
  ig_model :: "string option"
  ig_negative_prompt :: "string option"
  ig_height :: "number option"
  ig_width :: "number option"
  ig_num_inference_steps :: "number option"
  ig_guidance_scale :: "number option"

record ImageEditRequest =
  ie_image :: string
  ie_prompt :: string
  ie_mask :: "string option"
  ie_model :: "string option"
  ie_negative_prompt :: "string option"
  ie_strength :: "number option"
  ie_num_inference_steps :: "number option"
  ie_guidance_scale :: "number option"

record TTSRequest =
  tts_text :: string
  tts_model :: "string option"
  tts_speaker_id :: "number option"
  tts_speed :: "number option"

record STTResponse =
  stt_text :: string
  stt_language :: string
  stt_confidence :: number
  stt_model :: string

datatype Role = System | User | Assistant

record Message =
  role :: Role
  content :: string

record LLMRequest =
  llm_messages :: "Message list"
  llm_model :: "string option"
  llm_max_tokens :: "number option"
  llm_temperature :: "number option"
  llm_top_p :: "number option"
  llm_top_k :: "number option"

record LLMResponse =
  response :: string
  model :: string
  tokens_used :: number
  stop_reason :: string

record EmbeddingRequest =
  emb_text :: string
  emb_model :: "string option"

record EmbeddingResponse =
  embedding :: "number list"
  dimension :: number
  er_model :: string
  er_tokens_used :: number

record VideoTextToVideoRequest =
  t2v_prompt :: string
  t2v_model :: "string option"
  t2v_negative_prompt :: "string option"
  t2v_duration :: "number option"
  t2v_fps :: "number option"
  t2v_num_inference_steps :: "number option"

record VideoImageToVideoRequest =
  i2v_prompt :: "string option"
  i2v_duration :: "number option"
  i2v_fps :: "number option"
  i2v_num_inference_steps :: "number option"

record HealthResponse =
  health_status :: string
  health_timestamp :: string

text \<open>
  The JavaScript objects the JSON response interfaces describe, property by property
  in the order of the declarations, and the two properties of a \<open>Blob\<close>.
\<close>

definition LLMResponse_object :: "LLMResponse \<Rightarrow> JsValue" where
  "LLMResponse_object r = JObject
     [(''response'', JString (response r)),
      (''model'', JString (model r)),
      (''tokens_used'', JNumber (tokens_used r)),
      (''stop_reason'', JString (stop_reason r))]"

definition EmbeddingResponse_object :: "EmbeddingResponse \<Rightarrow> JsValue" where
  "EmbeddingResponse_object r = JObject
     [(''embedding'', JArray (map JNumber (embedding r))),
      (''dimension'', JNumber (dimension r)),
      (''model'', JString (er_model r)),
      (''tokens_used'', JNumber (er_tokens_used r))]"

definition STTResponse_object :: "STTResponse \<Rightarrow> JsValue" where
  "STTResponse_object r = JObject
     [(''text'', JString (stt_text r)),
      (''language'', JString (stt_language r)),
      (''confidence'', JNumber (stt_confidence r)),
      (''model'', JString (stt_model r))]"

definition Blob_object :: "Blob \<Rightarrow> JsValue" where
  "Blob_object b = JObject
     [(''size'', JNumber (of_nat (length (blob_bytes b)))),
      (''type'', JString (blob_type b))]"

section \<open>The axios instance and its transport\<close>

text \<open>
  \<open>axios.create\<close> fixes the defaults of every request the client sends; a call
  \<open>client.post(url, data, config)\<close> merges its own config over them. A request as
  the transport sees it:
\<close>

datatype HttpVerb = GET | POST

datatype ResponseType = RespJson | RespBlob

datatype FormValue = FormString string | FormFile File

type_synonym FormData = "(string \<times> FormValue) list"

datatype Body =
    NoBody
  | ImageGenerationBody ImageGenerationRequest
  | ImageEditBody ImageEditRequest
  | TTSBody TTSRequest
  | LLMBody LLMRequest
  | EmbeddingBody EmbeddingRequest
  | TextToVideoBody VideoTextToVideoRequest
  | FormBody FormData

record HttpRequest =
  req_verb :: HttpVerb
  req_baseURL :: string
  req_url :: string
  req_body :: Body
  req_headers :: "(string \<times> string) list"
  req_responseType :: ResponseType
  req_timeout :: nat

text \<open>
  \<open>AxiosResponse<T>\<close> and \<open>AxiosError\<close>, with the fields the code reads:
  \<open>error.response\<close> (present when the server answered with a status outside 2xx),
  \<open>error.request\<close> (present when the request was sent) and \<open>error.message\<close>.
\<close>

record 'd AxiosResponse =
  data :: 'd
  status :: nat

record ErrorResponse =
  err_status :: nat
  err_data :: JsValue

record AxiosError =
  error_response :: "ErrorResponse option"
  error_request :: bool
  error_message :: string

datatype JsError = TypeError string | AxiosErr AxiosError

text \<open>
  The network and the server are the environment: a transport answers a request, given
  the requests issued before it, with a response or an \<open>AxiosError\<close>. The type
  parameter is the \<open>T\<close> of \<open>client.post<T>\<close>. The body of an error response comes
  decoded as the request's \<open>responseType\<close> says: a parsed value for a JSON request, a
  \<open>Blob\<close> for a \<open>responseType: 'blob'\<close> request.
\<close>

type_synonym 'd Transport = "HttpRequest list \<Rightarrow> HttpRequest \<Rightarrow> AxiosError + 'd AxiosResponse"

text \<open>
  What the code does to the outside world: the transport calls issued, the lines
  written with \<open>console.error\<close> and the toasts shown, each in order.
\<close>

datatype LogArg = LogValue JsValue | LogError JsError

datatype ToastKind = ToastError | ToastSuccess | ToastInfo

record World =
  calls :: "HttpRequest list"
  console :: "(string \<times> LogArg) list"
  toasts :: "(ToastKind \<times> JsValue) list"

definition console_error :: "string \<Rightarrow> LogArg \<Rightarrow> World \<Rightarrow> World" where
  "console_error label arg w = w\<lparr>console := console w @ [(label, arg)]\<rparr>"

definition toast :: "ToastKind \<Rightarrow> JsValue \<Rightarrow> World \<Rightarrow> World" where
  "toast kind msg w = w\<lparr>toasts := toasts w @ [(kind, msg)]\<rparr>"

section \<open>\<open>APIClient\<close>\<close>

text \<open>
  \<open>const API_BASE_URL = import.meta.env.VITE_API_URL || 'http://localhost:8000'\<close>;
  the environment variable is a parameter.
\<close>

definition API_BASE_URL :: "string option \<Rightarrow> string" where
  "API_BASE_URL VITE_API_URL =
     (case VITE_API_URL of
        Some u \<Rightarrow> if u \<noteq> [] then u else ''http://localhost:8000''
      | None \<Rightarrow> ''http://localhost:8000'')"

text \<open>The constructor: the instance's defaults (\<open>this.client\<close>).\<close>

record AxiosDefaults =
  baseURL :: string
  timeout :: nat
  headers :: "(string \<times> string) list"

definition APIClient :: "string \<Rightarrow> AxiosDefaults" where
  "APIClient base =
     \<lparr>baseURL = base, timeout = 300000, headers = [(''Content-Type'', ''application/json'')]\<rparr>"

definition apiClient :: "string option \<Rightarrow> AxiosDefaults" where
  "apiClient VITE_API_URL = APIClient (API_BASE_URL VITE_API_URL)"

text \<open>The per-call config: headers that override the defaults', and the response type.\<close>

record CallConfig =
  cfg_headers :: "(string \<times> string) list"
  cfg_responseType :: ResponseType

definition no_config :: CallConfig where
  "no_config = \<lparr>cfg_headers = [], cfg_responseType = RespJson\<rparr>"

definition blob_config :: CallConfig where
  "blob_config = \<lparr>cfg_headers = [], cfg_responseType = RespBlob\<rparr>"

definition merge_headers :: "(string \<times> string) list \<Rightarrow> (string \<times> string) list \<Rightarrow> (string \<times> string) list" where
  "merge_headers defaults own = filter (\<lambda>(k, v). k \<notin> fst ` set own) defaults @ own"

definition mk_request :: "AxiosDefaults \<Rightarrow> HttpVerb \<Rightarrow> string \<Rightarrow> Body \<Rightarrow> CallConfig \<Rightarrow> HttpRequest" where
  "mk_request this verb url body cfg =
     \<lparr>req_verb = verb, req_baseURL = baseURL this, req_url = url, req_body = body,
      req_headers = merge_headers (headers this) (cfg_headers cfg),
      req_responseType = cfg_responseType cfg, req_timeout = timeout this\<rparr>"

text \<open>
  The response interceptor. Its first function returns the response; its second one
  logs and throws the error it was given:
  \<^verbatim>\<open>
  (error: AxiosError) => {
    if (error.response) { console.error('API Error:', error.response.data); }
    else if (error.request) { console.error('Network Error:', error.message); }
    throw error;
  }
  \<close>
\<close>

definition interceptor_fulfilled :: "'d AxiosResponse \<Rightarrow> 'd AxiosResponse" where
  "interceptor_fulfilled resp = resp"

definition interceptor_rejected :: "AxiosError \<Rightarrow> World \<Rightarrow> JsError \<times> World" where
  "interceptor_rejected error w =
     (case error_response error of
        Some r \<Rightarrow> (AxiosErr error, console_error ''API Error:'' (LogValue (err_data r)) w)
      | None \<Rightarrow>
          if error_request error
          then (AxiosErr error, console_error ''Network Error:'' (LogValue (JString (error_message error))) w)
          else (AxiosErr error, w))"

text \<open>
  One \<open>await this.client.get/post(...)\<close>: the request goes to the transport once
  (axios sends a request once; the instance is created without any adapter or
  interceptor that would send it again), and the response interceptor sees what comes
  back.
\<close>

definition client_request :: "'d Transport \<Rightarrow> HttpRequest \<Rightarrow> World \<Rightarrow> (JsError + 'd AxiosResponse) \<times> World" where
  "client_request transport rq w =
     (let w1 = w\<lparr>calls := calls w @ [rq]\<rparr> in
      case transport (calls w) rq of
        Inr resp \<Rightarrow> (Inr (interceptor_fulfilled resp), w1)
      | Inl error \<Rightarrow> (case interceptor_rejected error w1 of (e, w2) \<Rightarrow> (Inl e, w2)))"

text \<open>\<open>return response.data\<close>, reached only when the \<open>await\<close> did not throw.\<close>

definition return_data :: "(JsError + 'd AxiosResponse) \<times> World \<Rightarrow> (JsError + 'd) \<times> World" where
  "return_data r = (case r of (Inl e, w) \<Rightarrow> (Inl e, w) | (Inr resp, w) \<Rightarrow> (Inr (data resp), w))"

definition healthCheck :: "AxiosDefaults \<Rightarrow> HealthResponse Transport \<Rightarrow> World \<Rightarrow> (JsError + HealthResponse) \<times> World" where
  "healthCheck this transport w =
     return_data (client_request transport (mk_request this GET ''/health'' NoBody no_config) w)"

definition generateImage :: "AxiosDefaults \<Rightarrow> Blob Transport \<Rightarrow> ImageGenerationRequest \<Rightarrow> World \<Rightarrow> (JsError + Blob) \<times> World" where
  "generateImage this transport request w =
     return_data (client_request transport
       (mk_request this POST ''/api/image'' (ImageGenerationBody request) blob_config) w)"

definition editImage :: "AxiosDefaults \<Rightarrow> Blob Transport \<Rightarrow> ImageEditRequest \<Rightarrow> World \<Rightarrow> (JsError + Blob) \<times> World" where
  "editImage this transport request w =
     return_data (client_request transport
       (mk_request this POST ''/api/edit-image'' (ImageEditBody request) blob_config) w)"

definition textToSpeech :: "AxiosDefaults \<Rightarrow> Blob Transport \<Rightarrow> TTSRequest \<Rightarrow> World \<Rightarrow> (JsError + Blob) \<times> World" where
  "textToSpeech this transport request w =
     return_data (client_request transport
       (mk_request this POST ''/api/tts'' (TTSBody request) blob_config) w)"

text \<open>
  \<open>speechToText\<close> and \<open>generateImageToVideo\<close> build a fresh \<open>FormData\<close>; an optional
  part is appended when its value is truthy (a non-empty string, a number other than
  zero). \<open>toString\<close> of a number is the platform's and stays a parameter.
\<close>

definition speechToText_form :: "File \<Rightarrow> string option \<Rightarrow> string option \<Rightarrow> FormData" where
  "speechToText_form audioFile language model_name =
     (let formData = [];
          formData = formData @ [(''audio'', FormFile audioFile)];
          formData = (case language of Some l \<Rightarrow> if l \<noteq> [] then formData @ [(''language'', FormString l)] else formData
                      | None \<Rightarrow> formData);
          formData = (case model_name of Some m \<Rightarrow> if m \<noteq> [] then formData @ [(''model'', FormString m)] else formData
                      | None \<Rightarrow> formData)
      in formData)"

definition multipart_config :: CallConfig where
  "multipart_config = \<lparr>cfg_headers = [(''Content-Type'', ''multipart/form-data'')], cfg_responseType = RespJson\<rparr>"

definition multipart_blob_config :: CallConfig where
  "multipart_blob_config = \<lparr>cfg_headers = [(''Content-Type'', ''multipart/form-data'')], cfg_responseType = RespBlob\<rparr>"

definition speechToText :: "AxiosDefaults \<Rightarrow> STTResponse Transport \<Rightarrow> File \<Rightarrow> string option \<Rightarrow> string option \<Rightarrow> World \<Rightarrow> (JsError + STTResponse) \<times> World" where
  "speechToText this transport audioFile language model_name w =
     return_data (client_request transport
       (mk_request this POST ''/api/stt'' (FormBody (speechToText_form audioFile language model_name)) multipart_config) w)"

definition generateText :: "AxiosDefaults \<Rightarrow> LLMResponse Transport \<Rightarrow> LLMRequest \<Rightarrow> World \<Rightarrow> (JsError + LLMResponse) \<times> World" where
  "generateText this transport request w =
     return_data (client_request transport
       (mk_request this POST ''/api/llm'' (LLMBody request) no_config) w)"

definition generateEmbedding :: "AxiosDefaults \<Rightarrow> EmbeddingResponse Transport \<Rightarrow> EmbeddingRequest \<Rightarrow> World \<Rightarrow> (JsError + EmbeddingResponse) \<times> World" where
  "generateEmbedding this transport request w =
     return_data (client_request transport
       (mk_request this POST ''/api/embedding'' (EmbeddingBody request) no_config) w)"

definition generateTextToVideo :: "AxiosDefaults \<Rightarrow> Blob Transport \<Rightarrow> VideoTextToVideoRequest \<Rightarrow> World \<Rightarrow> (JsError + Blob) \<times> World" where
  "generateTextToVideo this transport request w =
     return_data (client_request transport
       (mk_request this POST ''/api/video/text-to-video'' (TextToVideoBody request) blob_config) w)"

definition append_number :: "(number \<Rightarrow> string) \<Rightarrow> string \<Rightarrow> number option \<Rightarrow> FormData \<Rightarrow> FormData" where
  "append_number toString name v formData =
     (case v of
        Some n \<Rightarrow> if n \<noteq> 0 then formData @ [(name, FormString (toString n))] else formData
      | None \<Rightarrow> formData)"

definition generateImageToVideo_form :: "(number \<Rightarrow> string) \<Rightarrow> File \<Rightarrow> VideoImageToVideoRequest \<Rightarrow> FormData" where
  "generateImageToVideo_form toString imageFile request =
     (let formData = [];
          formData = formData @ [(''image'', FormFile imageFile)];
          formData = (case i2v_prompt request of
                        Some p \<Rightarrow> if p \<noteq> [] then formData @ [(''prompt'', FormString p)] else formData
                      | None \<Rightarrow> formData);
          formData = append_number toString ''duration'' (i2v_duration request) formData;
          formData = append_number toString ''fps'' (i2v_fps request) formData;
          formData = append_number toString ''num_inference_steps'' (i2v_num_inference_steps request) formData
      in formData)"

definition generateImageToVideo :: "AxiosDefaults \<Rightarrow> Blob Transport \<Rightarrow> (number \<Rightarrow> string) \<Rightarrow> File \<Rightarrow> VideoImageToVideoRequest \<Rightarrow> World \<Rightarrow> (JsError + Blob) \<times> World" where
  "generateImageToVideo this transport toString imageFile request w =
     return_data (client_request transport
       (mk_request this POST ''/api/video/image-to-video''
          (FormBody (generateImageToVideo_form toString imageFile request)) multipart_blob_config) w)"

text \<open>
  The members of an \<open>APIClient\<close> object: the field and the methods of the class. A call
  \<open>apiClient.m(...)\<close> of a name that is no member evaluates \<open>undefined(...)\<close> and throws
  a \<open>TypeError\<close>; \<open>impl\<close> is what the member does when there is one.
\<close>

definition APIClient_members :: "string list" where
  "APIClient_members =
     [''client'', ''healthCheck'', ''generateImage'', ''editImage'', ''textToSpeech'',
      ''speechToText'', ''generateText'', ''generateEmbedding'', ''generateTextToVideo'',
      ''generateImageToVideo'']"

definition call_member :: "string \<Rightarrow> (World \<Rightarrow> (JsError + 'r) \<times> World) \<Rightarrow> World \<Rightarrow> (JsError + 'r) \<times> World" where
  "call_member name impl w =
     (if name \<in> set APIClient_members then impl w
      else (Inl (TypeError (''apiClient.'' @ name @ '' is not a function'')), w))"

section \<open>The Chat page\<close>

text \<open>
  The state of the component (one \<open>useState\<close> each) and its initial value. The
  fields of a \<open>ModelOption\<close> are \<open>value\<close> and \<open>label\<close> in the source.
\<close>

record ModelOption =
  mo_value :: string
  mo_label :: string

record ModelsResponse =
  llm :: "string list"

record ChatState =
  availableModels :: "ModelOption list"
  messages :: "Message list"
  input :: string
  chat_model :: string
  loading :: bool

definition Chat_initial :: ChatState where
  "Chat_initial =
     \<lparr>availableModels = [],
      messages = [\<lparr>role = System, content = ''You are a helpful AI assistant.''\<rparr>],
      input = [], chat_model = [], loading = False\<rparr>"

text \<open>\<open>m.split('/').pop() || m\<close>\<close>

definition model_label :: "string \<Rightarrow> string" where
  "model_label m =
     (case js_pop (js_split (CHR ''/'') m) of
        Some l \<Rightarrow> if l \<noteq> [] then l else m
      | None \<Rightarrow> m)"

text \<open>
  The effect that runs once when the page mounts. \<open>getModels_impl\<close> stands for what a
  \<open>getModels\<close> member of the client would do.
  \<^verbatim>\<open>
  try {
    const response = await apiClient.getModels();
    const llmModels = response.llm.map((m: string) => ({ value: m, label: ... }));
    setAvailableModels(llmModels);
    if (llmModels.length > 0) { setModel(llmModels[0].value); }
  } catch (error) {
    console.error('Failed to fetch models:', error);
    toast.error('Failed to load available models from server.');
  }
  \<close>
\<close>

definition fetchModels :: "(World \<Rightarrow> (JsError + ModelsResponse) \<times> World) \<Rightarrow> ChatState \<times> World \<Rightarrow> ChatState \<times> World" where
  "fetchModels getModels_impl sw =
     (case sw of (s, w) \<Rightarrow>
        (case call_member ''getModels'' getModels_impl w of
           (Inr resp, w1) \<Rightarrow>
             (let llmModels = map (\<lambda>m. \<lparr>mo_value = m, mo_label = model_label m\<rparr>) (llm resp);
                  s1 = s\<lparr>availableModels := llmModels\<rparr>
              in case llmModels of
                   first # _ \<Rightarrow> (s1\<lparr>chat_model := mo_value first\<rparr>, w1)
                 | [] \<Rightarrow> (s1, w1))
         | (Inl error, w1) \<Rightarrow>
             (s, toast ToastError (JString ''Failed to load available models from server.'')
                   (console_error ''Failed to fetch models:'' (LogError error) w1))))"

text \<open>The model selector: \<open>disabled={availableModels.length === 0}\<close>.\<close>

definition select_disabled :: "ChatState \<Rightarrow> bool" where
  "select_disabled s = (length (availableModels s) = 0)"

text \<open>
  The text of an error toast: \<open>error.response?.data?.message || fallback\<close>. Only an
  \<open>AxiosError\<close> that carries a response has a \<open>response\<close> property.
\<close>

definition error_toast_message :: "JsError \<Rightarrow> string \<Rightarrow> JsValue" where
  "error_toast_message error fallback =
     js_or (case error of
              AxiosErr e \<Rightarrow> (case error_response e of
                               Some r \<Rightarrow> opt_prop (err_data r) ''message''
                             | None \<Rightarrow> JUndefined)
            | TypeError _ \<Rightarrow> JUndefined)
           (JString fallback)"

text \<open>
  \<open>handleSend\<close>. The request
  \<open>{ messages: [...messages, userMessage], model, max_tokens: 512, temperature: 0.7 }\<close>
  is built from the \<open>messages\<close> and \<open>model\<close> of the render the handler belongs to;
  the state updates are the functional ones of the source, applied in order.
\<close>

definition handleSend_request :: "ChatState \<Rightarrow> Message \<Rightarrow> LLMRequest" where
  "handleSend_request s userMessage =
     \<lparr>llm_messages = messages s @ [userMessage], llm_model = Some (chat_model s),
      llm_max_tokens = Some 512, llm_temperature = Some (7 / 10),
      llm_top_p = None, llm_top_k = None\<rparr>"

definition handleSend :: "AxiosDefaults \<Rightarrow> LLMResponse Transport \<Rightarrow> ChatState \<times> World \<Rightarrow> ChatState \<times> World" where
  "handleSend this transport sw =
     (case sw of (s, w) \<Rightarrow>
        if js_trim (input s) = []
        then (s, toast ToastError (JString ''Please enter a message'') w)
        else
          (let userMessage = \<lparr>role = User, content = input s\<rparr>;
               s1 = s\<lparr>messages := messages s @ [userMessage]\<rparr>;
               s2 = s1\<lparr>input := []\<rparr>;
               s3 = s2\<lparr>loading := True\<rparr>
           in case generateText this transport (handleSend_request s userMessage) w of
                (Inr resp, w1) \<Rightarrow>
                  (let assistantMessage = \<lparr>role = Assistant, content = response resp\<rparr>;
                       s4 = s3\<lparr>messages := messages s3 @ [assistantMessage]\<rparr>
                   in (s4\<lparr>loading := False\<rparr>, w1))
              | (Inl error, w1) \<Rightarrow>
                  (let w2 = console_error ''Chat error:'' (LogError error) w1;
                       w3 = toast ToastError
                              (error_toast_message error ''Failed to get response. Please try again.'') w2;
                       s4 = s3\<lparr>messages := slice_0_minus1 (messages s3)\<rparr>
                   in (s4\<lparr>loading := False\<rparr>, w3))))"

section \<open>The ImageGeneration page\<close>

definition models :: "ModelOption list" where
  "models =
     [\<lparr>mo_value = ''stabilityai/stable-diffusion-3-medium'', mo_label = ''Stable Diffusion 3 Medium''\<rparr>,
      \<lparr>mo_value = ''black-forest-labs/FLUX.1-dev'', mo_label = ''FLUX.1 Dev''\<rparr>,
      \<lparr>mo_value = ''runwayml/stable-diffusion-v1-5'', mo_label = ''Stable Diffusion v1.5''\<rparr>]"

record ImageGenerationState =
  prompt :: string
  negativePrompt :: string
  image_model :: string
  width :: number
  height :: number
  steps :: number
  guidanceScale :: number
  image_loading :: bool
  generatedImage :: "string option"

definition ImageGeneration_initial :: ImageGenerationState where
  "ImageGeneration_initial =
     \<lparr>prompt = [], negativePrompt = [], image_model = mo_value (hd models),
      width = 512, height = 512, steps = 50, guidanceScale = 15 / 2,
      image_loading = False, generatedImage = None\<rparr>"

text \<open>
  The request \<open>handleGenerate\<close> passes to \<open>apiClient.generateImage\<close>;
  \<open>negativePrompt || undefined\<close> leaves an empty negative prompt out.
\<close>

definition handleGenerate_request :: "ImageGenerationState \<Rightarrow> ImageGenerationRequest" where
  "handleGenerate_request s =
     \<lparr>ig_prompt = prompt s,
      ig_model = Some (image_model s),
      ig_negative_prompt = (if negativePrompt s \<noteq> [] then Some (negativePrompt s) else None),
      ig_height = Some (height s),
      ig_width = Some (width s),
      ig_num_inference_steps = Some (steps s),
      ig_guidance_scale = Some (guidanceScale s)\<rparr>"

text \<open>\<open>handleGenerate\<close>; \<open>URL.createObjectURL\<close> is the platform's and stays a parameter.\<close>

definition handleGenerate :: "AxiosDefaults \<Rightarrow> Blob Transport \<Rightarrow> (Blob \<Rightarrow> string) \<Rightarrow> ImageGenerationState \<times> World \<Rightarrow> ImageGenerationState \<times> World" where
  "handleGenerate this transport createObjectURL sw =
     (case sw of (s, w) \<Rightarrow>
        if js_trim (prompt s) = []
        then (s, toast ToastError (JString ''Please enter a prompt'') w)
        else
          (let s1 = s\<lparr>image_loading := True\<rparr>;
               s2 = s1\<lparr>generatedImage := None\<rparr>
           in case generateImage this transport (handleGenerate_request s) w of
                (Inr blob, w1) \<Rightarrow>
                  (let url = createObjectURL blob;
                       s3 = s2\<lparr>generatedImage := Some url\<rparr>;
                       w2 = toast ToastSuccess (JString ''Image generated successfully!'') w1
                   in (s3\<lparr>image_loading := False\<rparr>, w2))
              | (Inl error, w1) \<Rightarrow>
                  (let w2 = console_error ''Generation error:'' (LogError error) w1;
                       w3 = toast ToastError
                              (error_toast_message error ''Failed to generate image. Please try again.'') w2
                   in (s2\<lparr>image_loading := False\<rparr>, w3))))"

section \<open>The gateway as the specification describes it\<close>

text \<open>
  The specification's subject is the gateway behind the endpoints the client calls.
  Its code is not among the sources, which hold the client only; the definitions of
  this section follow the specification's words.
\<close>

text \<open>Modelled from the spec: the \<open>task\<close> enumeration of an \<open>InferenceRequest\<close> (section 3).\<close>

datatype Task = TextGen | Embedding | TTS | STT | ImageGenerate | ImageEdit | TextToVideo | ImageToVideo



text \<open>Modelled from the spec: the two upstream operations of the ImageEdit adapter
  (section 4.4), inpainting and image-to-image.\<close>

datatype EditOperation = Inpainting | ImageToImage

text \<open>
  Modelled from the spec: the upstream operation the ImageEdit adapter selects for the
  body of a \<open>POST /api/edit-image\<close>; the image-edit service is missing from the sources.
  "Mask-presence is the sole discriminator": a request with a mask is inpainting, one
  without is image-to-image. The repository's README documents the same two request
  shapes for the endpoint, the inpainting one with both \<open>mask\<close> and \<open>strength\<close>.
\<close>

definition selectEditOperation :: "ImageEditRequest \<Rightarrow> EditOperation" where
  "selectEditOperation request =
     (case ie_mask request of Some m \<Rightarrow> Inpainting | None \<Rightarrow> ImageToImage)"

section \<open>Observations and scenarios\<close>

text \<open>The transport calls issued between an earlier world and a later one.\<close>

definition calls_made :: "World \<Rightarrow> World \<Rightarrow> HttpRequest list" where
  "calls_made before after = drop (length (calls before)) (calls after)"

text \<open>The \<open>model\<close> a request body names, if any.\<close>

fun body_model :: "Body \<Rightarrow> string option" where
  "body_model NoBody = None"
| "body_model (ImageGenerationBody r) = ig_model r"
| "body_model (ImageEditBody r) = ie_model r"
| "body_model (TTSBody r) = tts_model r"
| "body_model (LLMBody r) = llm_model r"
| "body_model (EmbeddingBody r) = emb_model r"
| "body_model (TextToVideoBody r) = t2v_model r"
| "body_model (FormBody parts) =
     (case map_of parts ''model'' of Some (FormString m) \<Rightarrow> Some m | _ \<Rightarrow> None)"

definition World_empty :: World where
  "World_empty = \<lparr>calls = [], console = [], toasts = []\<rparr>"

definition local_client :: AxiosDefaults where
  "local_client = apiClient None"

text \<open>
  Failures as axios reports them: a 503 and a 500 in reply to a JSON request, the body
  of the 500 a parsed object whose \<open>message\<close> quotes a stack trace; a 404 in reply to a
  \<open>responseType: 'blob'\<close> request, whose body axios delivers, like every body of such
  a request, as a \<open>Blob\<close> (here the bytes of
  \<open>{"error":"model_not_found","message":"Model not found"}\<close>); a timeout and a
  refused connection, which carry no response.
\<close>

definition service_unavailable :: AxiosError where
  "service_unavailable =
     \<lparr>error_response = Some \<lparr>err_status = 503, err_data = JObject [(''detail'', JString ''Service Unavailable'')]\<rparr>,
      error_request = True, error_message = ''Request failed with status code 503''\<rparr>"

definition not_found :: AxiosError where
  "not_found =
     \<lparr>error_response = Some \<lparr>err_status = 404,
        err_data = JBlob \<lparr>blob_type = ''application/json'',
          blob_bytes = [123, 34, 101, 114, 114, 111, 114, 34, 58, 34, 109, 111, 100, 101, 108, 95, 110,
            111, 116, 95, 102, 111, 117, 110, 100, 34, 44, 34, 109, 101, 115, 115, 97, 103, 101, 34,
            58, 34, 77, 111, 100, 101, 108, 32, 110, 111, 116, 32, 102, 111, 117, 110, 100, 34,
            125]\<rparr>\<rparr>,
      error_request = True, error_message = ''Request failed with status code 404''\<rparr>"


definition timed_out :: AxiosError where
  "timed_out =
     \<lparr>error_response = None, error_request = True, error_message = ''timeout of 300000ms exceeded''\<rparr>"


definition always_fails :: "AxiosError \<Rightarrow> 'd Transport" where
  "always_fails error history rq = Inl error"

definition always_answers :: "'d \<Rightarrow> 'd Transport" where
  "always_answers body history rq = Inr \<lparr>data = body, status = 200\<rparr>"

definition greeting :: LLMResponse where
  "greeting = \<lparr>response = ''Hello!'', model = ''B'', tokens_used = 3, stop_reason = ''stop''\<rparr>"

definition picture :: Blob where
  "picture = \<lparr>blob_type = ''image/png'', blob_bytes = [137, 80, 78, 71]\<rparr>"

definition vector :: EmbeddingResponse where
  "vector = \<lparr>embedding = [1 / 2], dimension = 1, er_model = ''E'', er_tokens_used = 1\<rparr>"

definition transcript :: STTResponse where
  "transcript = \<lparr>stt_text = ''hi'', stt_language = ''en'', stt_confidence = 1, stt_model = ''W''\<rparr>"

definition upload :: File where
  "upload = \<lparr>blob_type = ''image/png'', blob_bytes = [137, 80, 78, 71], file_name = ''a.png''\<rparr>"

text \<open>A server on which model \<open>A\<close> does not exist and model \<open>B\<close> generates an image.\<close>

definition A_missing_B_serves :: "Blob Transport" where
  "A_missing_B_serves history rq =
     (if body_model (req_body rq) = Some ''B'' then Inr \<lparr>data = picture, status = 200\<rparr>
      else Inl not_found)"

definition image_request :: "string \<Rightarrow> ImageGenerationRequest" where
  "image_request m =
     \<lparr>ig_prompt = ''a cat'', ig_model = Some m, ig_negative_prompt = None, ig_height = None,
      ig_width = None, ig_num_inference_steps = None, ig_guidance_scale = None\<rparr>"

definition hello_request :: LLMRequest where
  "hello_request =
     \<lparr>llm_messages = [\<lparr>role = User, content = ''hello''\<rparr>], llm_model = Some ''A'',
      llm_max_tokens = None, llm_temperature = None, llm_top_p = None, llm_top_k = None\<rparr>"

definition edit_request :: "string option \<Rightarrow> number option \<Rightarrow> ImageEditRequest" where
  "edit_request mask_b64 strength =
     \<lparr>ie_image = ''aW1hZ2U='', ie_prompt = ''make the sky orange'', ie_mask = mask_b64, ie_model = None,
      ie_negative_prompt = None, ie_strength = strength, ie_num_inference_steps = None,
      ie_guidance_scale = None\<rparr>"

definition speech_request :: TTSRequest where
  "speech_request = \<lparr>tts_text = ''hi'', tts_model = None, tts_speaker_id = None, tts_speed = None\<rparr>"

definition embedding_request :: EmbeddingRequest where
  "embedding_request = \<lparr>emb_text = ''x'', emb_model = None\<rparr>"

definition video_request :: VideoTextToVideoRequest where
  "video_request =
     \<lparr>t2v_prompt = ''a cat'', t2v_model = None, t2v_negative_prompt = None, t2v_duration = None,
      t2v_fps = None, t2v_num_inference_steps = None\<rparr>"

definition animate_request :: VideoImageToVideoRequest where
  "animate_request =
     \<lparr>i2v_prompt = None, i2v_duration = None, i2v_fps = None, i2v_num_inference_steps = None\<rparr>"

text \<open>The Chat page with \<open>hi\<close> typed and a model chosen; the ImageGeneration page with
  \<open>hi\<close> as the prompt.\<close>

definition typing_hi :: "string \<Rightarrow> ChatState" where
  "typing_hi m = Chat_initial\<lparr>input := ''hi'', chat_model := m\<rparr>"

definition prompting_hi :: ImageGenerationState where
  "prompting_hi = ImageGeneration_initial\<lparr>prompt := ''hi''\<rparr>"

section \<open>Facts about one request\<close>

lemma client_request_calls:
  "calls (snd (client_request transport rq w)) = calls w @ [rq]"
  by (simp add: client_request_def interceptor_rejected_def console_error_def Let_def
           split: sum.splits option.splits prod.splits)


lemma client_request_result:
  "fst (client_request transport rq w) =
     (case transport (calls w) rq of Inl e \<Rightarrow> Inl (AxiosErr e) | Inr resp \<Rightarrow> Inr resp)"
  by (simp add: client_request_def interceptor_rejected_def interceptor_fulfilled_def Let_def
           split: sum.splits option.splits prod.splits)

lemma return_data_snd: "snd (return_data r) = snd r"
  by (simp add: return_data_def split: prod.splits sum.splits)

lemma return_data_fst: "fst (return_data r) = map_sum id data (fst r)"
  by (simp add: return_data_def split: prod.splits sum.splits)

lemma send_calls:
  "calls (snd (return_data (client_request transport rq w))) = calls w @ [rq]"
  by (simp add: return_data_snd client_request_calls)


lemma send_result:
  "fst (return_data (client_request transport rq w)) = map_sum AxiosErr data (transport (calls w) rq)"
  by (simp add: return_data_fst client_request_result split: sum.splits)

lemma send_calls_made:
  "calls_made w (snd (return_data (client_request transport rq w))) = [rq]"
  by (simp add: calls_made_def send_calls)

lemma isl_map_sum: "isl (map_sum f g x) = isl x"
  by (cases x) simp_all

lemma req_body_mk_request: "req_body (mk_request this verb url body cfg) = body"
  by (simp add: mk_request_def)

lemma req_url_mk_request: "req_url (mk_request this verb url body cfg) = url"
  by (simp add: mk_request_def)

lemma console_error_calls: "calls (console_error l a w) = calls w"
  by (simp add: console_error_def)


lemma toast_calls: "calls (toast k v w) = calls w"
  by (simp add: toast_def)




lemma generateImage_calls:
  "calls (snd (generateImage this t r w))
     = calls w @ [mk_request this POST ''/api/image'' (ImageGenerationBody r) blob_config]"
  by (simp add: generateImage_def send_calls)

lemma slice_snoc: "slice_0_minus1 (xs @ [x]) = xs"
  by (simp add: slice_0_minus1_def)

lemma trim_hi: "js_trim ''hi'' = ''hi''"
  by (simp add: js_trim_def is_js_whitespace_def)

lemma typing_hi_nonblank: "js_trim (input (typing_hi m)) \<noteq> []"
  by (simp add: typing_hi_def trim_hi)

lemma prompting_hi_nonblank: "js_trim (prompt prompting_hi) \<noteq> []"
  by (simp add: prompting_hi_def trim_hi)

lemma getModels_not_member: "''getModels'' \<notin> set APIClient_members"
  by (simp add: APIClient_members_def)

section \<open>The inference operations of the client\<close>

text \<open>
  C1 (as amended). Each of the seven inference operations of \<open>APIClient\<close>
  (\<open>generateText\<close>, \<open>generateImage\<close>, \<open>editImage\<close>, \<open>textToSpeech\<close>,
  \<open>generateEmbedding\<close>, \<open>generateTextToVideo\<close>, \<open>generateImageToVideo\<close>) issues exactly
  one transport call per invocation, whatever the transport answers, and its result is
  the outcome of that one call: the body of the response on success, and on a failure
  of any kind the transport's own error, rethrown by the interceptor. The client has no
  retry, no delay and no bound on attempts other than one.
\<close>

theorem inference_operation_single_attempt:
  "(let rq = mk_request this POST ''/api/llm'' (LLMBody llmR) no_config in
      calls_made w (snd (generateText this llmT llmR w)) = [rq]
      \<and> fst (generateText this llmT llmR w) = map_sum AxiosErr data (llmT (calls w) rq))
   \<and> (let rq = mk_request this POST ''/api/image'' (ImageGenerationBody imgR) blob_config in
      calls_made w (snd (generateImage this imgT imgR w)) = [rq]
      \<and> fst (generateImage this imgT imgR w) = map_sum AxiosErr data (imgT (calls w) rq))
   \<and> (let rq = mk_request this POST ''/api/edit-image'' (ImageEditBody editR) blob_config in
      calls_made w (snd (editImage this editT editR w)) = [rq]
      \<and> fst (editImage this editT editR w) = map_sum AxiosErr data (editT (calls w) rq))
   \<and> (let rq = mk_request this POST ''/api/tts'' (TTSBody ttsR) blob_config in
      calls_made w (snd (textToSpeech this ttsT ttsR w)) = [rq]
      \<and> fst (textToSpeech this ttsT ttsR w) = map_sum AxiosErr data (ttsT (calls w) rq))
   \<and> (let rq = mk_request this POST ''/api/embedding'' (EmbeddingBody embR) no_config in
      calls_made w (snd (generateEmbedding this embT embR w)) = [rq]
      \<and> fst (generateEmbedding this embT embR w) = map_sum AxiosErr data (embT (calls w) rq))
   \<and> (let rq = mk_request this POST ''/api/video/text-to-video'' (TextToVideoBody videoR) blob_config in
      calls_made w (snd (generateTextToVideo this videoT videoR w)) = [rq]
      \<and> fst (generateTextToVideo this videoT videoR w) = map_sum AxiosErr data (videoT (calls w) rq))
   \<and> (let rq = mk_request this POST ''/api/video/image-to-video''
                 (FormBody (generateImageToVideo_form toString imageFile animR)) multipart_blob_config in
      calls_made w (snd (generateImageToVideo this animT toString imageFile animR w)) = [rq]
      \<and> fst (generateImageToVideo this animT toString imageFile animR w)
          = map_sum AxiosErr data (animT (calls w) rq))"
  unfolding Let_def generateText_def generateImage_def editImage_def textToSpeech_def
    generateEmbedding_def generateTextToVideo_def generateImageToVideo_def
  by (simp only: send_calls_made send_result simp_thms)

text \<open>
  The claim as stated fails: against a transport that answers every request with HTTP
  503, \<open>generateText\<close> rejects with that error after one transport call, where the claim
  has exactly \<open>maxAttempts = 4\<close> calls.
\<close>

theorem retry_counterexample:
  "fst (generateText local_client (always_fails service_unavailable) hello_request World_empty)
     = Inl (AxiosErr service_unavailable)
   \<and> length (calls (snd (generateText local_client (always_fails service_unavailable) hello_request World_empty))) = 1
   \<and> length (calls (snd (generateText local_client (always_fails service_unavailable) hello_request World_empty)))
       \<noteq> 4"
  by (simp add: generateText_def send_result send_calls always_fails_def World_empty_def)

text \<open>
  C2 (as amended). A request names at most one model, its optional \<open>model\<close> field, and
  the client has no fallback chain: the one call an operation issues carries the
  caller's model unchanged, and the request as a whole fails exactly when that call
  fails, whatever the kind of failure. No other model is ever tried.
\<close>

theorem request_names_one_model:
  "map (body_model \<circ> req_body) (calls_made w (snd (generateImage this imgT imgR w))) = [ig_model imgR]
   \<and> isl (fst (generateImage this imgT imgR w))
       = isl (imgT (calls w) (mk_request this POST ''/api/image'' (ImageGenerationBody imgR) blob_config))
   \<and> map (body_model \<circ> req_body) (calls_made w (snd (editImage this editT editR w))) = [ie_model editR]
   \<and> isl (fst (editImage this editT editR w))
       = isl (editT (calls w) (mk_request this POST ''/api/edit-image'' (ImageEditBody editR) blob_config))
   \<and> map (body_model \<circ> req_body) (calls_made w (snd (textToSpeech this ttsT ttsR w))) = [tts_model ttsR]
   \<and> isl (fst (textToSpeech this ttsT ttsR w))
       = isl (ttsT (calls w) (mk_request this POST ''/api/tts'' (TTSBody ttsR) blob_config))
   \<and> map (body_model \<circ> req_body) (calls_made w (snd (generateText this llmT llmR w))) = [llm_model llmR]
   \<and> isl (fst (generateText this llmT llmR w))
       = isl (llmT (calls w) (mk_request this POST ''/api/llm'' (LLMBody llmR) no_config))
   \<and> map (body_model \<circ> req_body) (calls_made w (snd (generateEmbedding this embT embR w))) = [emb_model embR]
   \<and> isl (fst (generateEmbedding this embT embR w))
       = isl (embT (calls w) (mk_request this POST ''/api/embedding'' (EmbeddingBody embR) no_config))
   \<and> map (body_model \<circ> req_body) (calls_made w (snd (generateTextToVideo this videoT videoR w)))
       = [t2v_model videoR]
   \<and> isl (fst (generateTextToVideo this videoT videoR w))
       = isl (videoT (calls w)
               (mk_request this POST ''/api/video/text-to-video'' (TextToVideoBody videoR) blob_config))"
  unfolding generateImage_def editImage_def textToSpeech_def generateText_def
    generateEmbedding_def generateTextToVideo_def
  by (simp add: send_calls_made send_result req_body_mk_request isl_map_sum)

text \<open>
  The claim as stated fails: on a server where model \<open>A\<close> answers 404 and model \<open>B\<close>
  generates an image, a request for \<open>A\<close> is rejected with the 404 after one call, which
  names \<open>A\<close>; \<open>B\<close> is never called, though a request for \<open>B\<close> would have succeeded.
\<close>

theorem fallback_counterexample:
  "fst (generateImage local_client A_missing_B_serves (image_request ''A'') World_empty) = Inl (AxiosErr not_found)
   \<and> map (body_model \<circ> req_body)
         (calls (snd (generateImage local_client A_missing_B_serves (image_request ''A'') World_empty)))
       = [Some ''A'']
   \<and> fst (generateImage local_client A_missing_B_serves (image_request ''B'') World_empty) = Inr picture"
  by (simp add: generateImage_def send_result send_calls A_missing_B_serves_def image_request_def
        req_body_mk_request World_empty_def)

text \<open>
  C3 (as amended). A successful response is the body the server returned, handed to
  the caller unchanged: for the binary tasks a \<open>Blob\<close>, which has a MIME \<open>type\<close> and no
  model; for the JSON tasks an object of the declared shape (\<open>LLMResponse\<close>,
  \<open>EmbeddingResponse\<close>, \<open>STTResponse\<close>), whose \<open>model\<close> string is what the server
  reported. No response has a \<open>modelUsed\<close> or an \<open>elapsedMillis\<close> property.
\<close>

theorem successful_response_is_server_body:
  assumes "llmT (calls w) (mk_request this POST ''/api/llm'' (LLMBody llmR) no_config) = Inr llmResp"
    and "embT (calls w) (mk_request this POST ''/api/embedding'' (EmbeddingBody embR) no_config) = Inr embResp"
    and "sttT (calls w) (mk_request this POST ''/api/stt''
            (FormBody (speechToText_form audioFile language model_name)) multipart_config) = Inr sttResp"
    and "imgT (calls w) (mk_request this POST ''/api/image'' (ImageGenerationBody imgR) blob_config) = Inr imgResp"
    and "editT (calls w) (mk_request this POST ''/api/edit-image'' (ImageEditBody editR) blob_config) = Inr editResp"
    and "ttsT (calls w) (mk_request this POST ''/api/tts'' (TTSBody ttsR) blob_config) = Inr ttsResp"
    and "videoT (calls w) (mk_request this POST ''/api/video/text-to-video'' (TextToVideoBody videoR) blob_config)
           = Inr videoResp"
    and "animT (calls w) (mk_request this POST ''/api/video/image-to-video''
            (FormBody (generateImageToVideo_form toString imageFile animR)) multipart_blob_config) = Inr animResp"
  shows "fst (generateText this llmT llmR w) = Inr (data llmResp)
     \<and> fst (generateEmbedding this embT embR w) = Inr (data embResp)
     \<and> fst (speechToText this sttT audioFile language model_name w) = Inr (data sttResp)
     \<and> fst (generateImage this imgT imgR w) = Inr (data imgResp)
     \<and> fst (editImage this editT editR w) = Inr (data editResp)
     \<and> fst (textToSpeech this ttsT ttsR w) = Inr (data ttsResp)
     \<and> fst (generateTextToVideo this videoT videoR w) = Inr (data videoResp)
     \<and> fst (generateImageToVideo this animT toString imageFile animR w) = Inr (data animResp)
     \<and> opt_prop (LLMResponse_object (data llmResp)) ''model'' = JString (model (data llmResp))
     \<and> opt_prop (EmbeddingResponse_object (data embResp)) ''model'' = JString (er_model (data embResp))
     \<and> opt_prop (STTResponse_object (data sttResp)) ''model'' = JString (stt_model (data sttResp))
     \<and> opt_prop (Blob_object (data imgResp)) ''type'' = JString (blob_type (data imgResp))
     \<and> opt_prop (Blob_object (data imgResp)) ''model'' = JUndefined
     \<and> opt_prop (LLMResponse_object (data llmResp)) ''modelUsed'' = JUndefined
     \<and> opt_prop (EmbeddingResponse_object (data embResp)) ''modelUsed'' = JUndefined
     \<and> opt_prop (STTResponse_object (data sttResp)) ''modelUsed'' = JUndefined
     \<and> opt_prop (Blob_object (data imgResp)) ''modelUsed'' = JUndefined
     \<and> opt_prop (LLMResponse_object (data llmResp)) ''elapsedMillis'' = JUndefined
     \<and> opt_prop (EmbeddingResponse_object (data embResp)) ''elapsedMillis'' = JUndefined
     \<and> opt_prop (STTResponse_object (data sttResp)) ''elapsedMillis'' = JUndefined
     \<and> opt_prop (Blob_object (data imgResp)) ''elapsedMillis'' = JUndefined"
  unfolding generateText_def generateEmbedding_def speechToText_def generateImage_def
    editImage_def textToSpeech_def generateTextToVideo_def generateImageToVideo_def
  by (simp add: send_result assms LLMResponse_object_def EmbeddingResponse_object_def
        STTResponse_object_def Blob_object_def)

theorem successful_response_is_server_body_witness:
  "fst (generateText local_client (always_answers greeting) hello_request World_empty) = Inr greeting
   \<and> fst (generateEmbedding local_client (always_answers vector) embedding_request World_empty) = Inr vector
   \<and> fst (speechToText local_client (always_answers transcript) upload None None World_empty) = Inr transcript
   \<and> fst (generateImage local_client (always_answers picture) (image_request ''A'') World_empty) = Inr picture
   \<and> fst (generateImageToVideo local_client (always_answers picture) (\<lambda>n. ''5'') upload animate_request World_empty)
       = Inr picture
   \<and> opt_prop (LLMResponse_object greeting) ''model'' = JString ''B''
   \<and> opt_prop (Blob_object picture) ''type'' = JString ''image/png''"
  using successful_response_is_server_body
    [where w = World_empty and this = local_client
       and llmT = "always_answers greeting" and llmR = hello_request
       and llmResp = "\<lparr>data = greeting, status = 200\<rparr>"
       and embT = "always_answers vector" and embR = embedding_request
       and embResp = "\<lparr>data = vector, status = 200\<rparr>"
       and sttT = "always_answers transcript" and audioFile = upload and language = None
       and model_name = None and sttResp = "\<lparr>data = transcript, status = 200\<rparr>"
       and imgT = "always_answers picture" and imgR = "image_request ''A''"
       and imgResp = "\<lparr>data = picture, status = 200\<rparr>"
       and editT = "always_answers picture" and editR = "edit_request None None"
       and editResp = "\<lparr>data = picture, status = 200\<rparr>"
       and ttsT = "always_answers picture" and ttsR = speech_request
       and ttsResp = "\<lparr>data = picture, status = 200\<rparr>"
       and videoT = "always_answers picture" and videoR = video_request
       and videoResp = "\<lparr>data = picture, status = 200\<rparr>"
       and animT = "always_answers picture" and toString = "\<lambda>n. ''5''" and imageFile = upload
       and animR = animate_request and animResp = "\<lparr>data = picture, status = 200\<rparr>"]
  by (simp add: always_answers_def greeting_def picture_def)

text \<open>
  The claim as stated fails: the server answers a chat request with an object of
  exactly the declared \<open>LLMResponse\<close> shape and an image request with a PNG; both
  operations succeed, and neither result has a \<open>modelUsed\<close> or an \<open>elapsedMillis\<close>
  property (the image has no \<open>model\<close> property either).
\<close>

theorem response_fields_counterexample:
  "fst (generateText local_client (always_answers greeting) hello_request World_empty) = Inr greeting
   \<and> opt_prop (LLMResponse_object greeting) ''modelUsed'' = JUndefined
   \<and> opt_prop (LLMResponse_object greeting) ''elapsedMillis'' = JUndefined
   \<and> fst (generateImage local_client (always_answers picture) (image_request ''A'') World_empty) = Inr picture
   \<and> opt_prop (Blob_object picture) ''model'' = JUndefined
   \<and> opt_prop (Blob_object picture) ''modelUsed'' = JUndefined
   \<and> opt_prop (Blob_object picture) ''elapsedMillis'' = JUndefined"
  by (simp add: generateText_def generateImage_def send_result always_answers_def
        LLMResponse_object_def Blob_object_def)

section \<open>Image editing\<close>

text \<open>
  C4. For an image-edit request, the presence of a mask alone selects the upstream
  operation: two requests that agree on whether a mask is present get the same
  operation, whatever their other fields; with a mask it is inpainting, without it
  image-to-image. A request with both \<open>mask\<close> and \<open>strength\<close> is permitted and handled as
  inpainting: the client does not reject it, but sends it, as it sends every edit
  request, unchanged in one call to \<open>/api/edit-image\<close>.
\<close>

theorem edit_operation_by_mask:
  assumes "(ie_mask ra = None) = (ie_mask rb = None)"
  shows "selectEditOperation ra = selectEditOperation rb
     \<and> (selectEditOperation ra = Inpainting) = (ie_mask ra \<noteq> None)
     \<and> (selectEditOperation ra = ImageToImage) = (ie_mask ra = None)
     \<and> selectEditOperation (ra\<lparr>ie_mask := Some m, ie_strength := Some k\<rparr>) = Inpainting
     \<and> map req_url (calls_made w (snd (editImage this t ra w))) = [''/api/edit-image'']
     \<and> map req_body (calls_made w (snd (editImage this t ra w))) = [ImageEditBody ra]"
  using assms
  by (auto simp add: selectEditOperation_def editImage_def send_calls_made req_body_mk_request
        req_url_mk_request split: option.splits)

theorem edit_operation_by_mask_witness:
  "((ie_mask (edit_request (Some ''bWFzaw=='') (Some (3 / 4))) = None)
      = (ie_mask (edit_request (Some ''eA=='') None) = None))
   \<and> selectEditOperation (edit_request (Some ''bWFzaw=='') (Some (3 / 4)))
     = selectEditOperation (edit_request (Some ''eA=='') None)
   \<and> selectEditOperation (edit_request (Some ''bWFzaw=='') (Some (3 / 4))) = Inpainting
   \<and> map req_body (calls_made World_empty
        (snd (editImage local_client (always_answers picture)
                (edit_request (Some ''bWFzaw=='') (Some (3 / 4))) World_empty)))
       = [ImageEditBody (edit_request (Some ''bWFzaw=='') (Some (3 / 4)))]"
proof -
  have same_presence:
    "(ie_mask (edit_request (Some ''bWFzaw=='') (Some (3 / 4))) = None)
      = (ie_mask (edit_request (Some ''eA=='') None) = None)"
    by (simp add: edit_request_def)
  have present: "ie_mask (edit_request (Some ''bWFzaw=='') (Some (3 / 4))) \<noteq> None"
    by (simp add: edit_request_def)
  show ?thesis
    using same_presence present
      edit_operation_by_mask [OF same_presence, where w = World_empty and this = local_client
        and t = "always_answers picture" and m = "''bWFzaw==''" and k = "3 / 4"]
    by blast
qed

section \<open>What the caller sees of a failure\<close>




section \<open>The fallback chain\<close>







section \<open>Building the payload\<close>

lemma handleGenerate_calls:
  assumes "js_trim (prompt s) \<noteq> []"
  shows "calls (snd (handleGenerate this t createObjectURL (s, w)))
     = calls w @ [mk_request this POST ''/api/image'' (ImageGenerationBody (handleGenerate_request s)) blob_config]"
proof (cases "generateImage this t (handleGenerate_request s) w")
  case (Pair res w1)
  then have "calls w1 = calls w @
      [mk_request this POST ''/api/image'' (ImageGenerationBody (handleGenerate_request s)) blob_config]"
    using generateImage_calls [of this t "handleGenerate_request s" w] by simp
  then show ?thesis
    using assms Pair
    by (cases res) (simp_all add: handleGenerate_def Let_def toast_calls console_error_calls)
qed

lemma handleGenerate_keeps_request:
  assumes "js_trim (prompt s) \<noteq> []"
  shows "handleGenerate_request (fst (handleGenerate this t createObjectURL (s, w))) = handleGenerate_request s
     \<and> prompt (fst (handleGenerate this t createObjectURL (s, w))) = prompt s"
proof (cases "generateImage this t (handleGenerate_request s) w")
  case (Pair res w1)
  then show ?thesis
    using assms
    by (cases res) (simp_all add: handleGenerate_def Let_def handleGenerate_request_def)
qed

text \<open>
  C7. The payload handed to the transport is a function of the request alone. The form
  \<open>generateImageToVideo\<close> builds and the request \<open>handleGenerate\<close> builds (for a prompt
  that is not blank) are the same in every world, against every transport and from
  every client object; building twice in a row, the second time in the world and page
  state the first attempt left behind, whether it failed or succeeded, sends the same
  payload twice; and choosing another model changes the \<open>model\<close> field of the payload
  and nothing else.
\<close>

theorem payload_depends_on_request_only:
  assumes "js_trim (prompt s) \<noteq> []"
  shows "map req_body (calls_made w (snd (generateImageToVideo this ta toString imageFile r w)))
       = map req_body (calls_made w' (snd (generateImageToVideo this' tb toString imageFile r w')))
     \<and> map req_body (calls_made w (snd (generateImageToVideo this tb toString imageFile r
            (snd (generateImageToVideo this ta toString imageFile r w)))))
       = [FormBody (generateImageToVideo_form toString imageFile r),
          FormBody (generateImageToVideo_form toString imageFile r)]
     \<and> map req_body (calls_made w (snd (handleGenerate this ua createObjectURL (s, w))))
       = map req_body (calls_made w' (snd (handleGenerate this' ub createObjectURL (s, w'))))
     \<and> map req_body (calls_made w (snd (handleGenerate this ub createObjectURL
            (handleGenerate this ua createObjectURL (s, w)))))
       = [ImageGenerationBody (handleGenerate_request s), ImageGenerationBody (handleGenerate_request s)]
     \<and> handleGenerate_request (s\<lparr>image_model := m\<rparr>) = (handleGenerate_request s)\<lparr>ig_model := Some m\<rparr>"
proof -
  have a: "map req_body (calls_made w (snd (generateImageToVideo this ta toString imageFile r w)))
       = map req_body (calls_made w' (snd (generateImageToVideo this' tb toString imageFile r w')))"
    by (simp add: generateImageToVideo_def send_calls_made req_body_mk_request)
  have b: "map req_body (calls_made w (snd (generateImageToVideo this tb toString imageFile r
            (snd (generateImageToVideo this ta toString imageFile r w)))))
       = [FormBody (generateImageToVideo_form toString imageFile r),
          FormBody (generateImageToVideo_form toString imageFile r)]"
    by (simp add: generateImageToVideo_def send_calls calls_made_def req_body_mk_request)
  have c: "map req_body (calls_made w (snd (handleGenerate this ua createObjectURL (s, w))))
       = map req_body (calls_made w' (snd (handleGenerate this' ub createObjectURL (s, w'))))"
    by (simp add: calls_made_def handleGenerate_calls [OF assms] req_body_mk_request)
  obtain s1 w1 where first: "handleGenerate this ua createObjectURL (s, w) = (s1, w1)"
    by (cases "handleGenerate this ua createObjectURL (s, w)")
  have s1: "handleGenerate_request s1 = handleGenerate_request s" "js_trim (prompt s1) \<noteq> []"
    using handleGenerate_keeps_request [OF assms, of this ua createObjectURL w] first assms by simp_all
  have w1: "calls w1 = calls w @
      [mk_request this POST ''/api/image'' (ImageGenerationBody (handleGenerate_request s)) blob_config]"
    using handleGenerate_calls [OF assms, of this ua createObjectURL w] first by simp
  have d: "map req_body (calls_made w (snd (handleGenerate this ub createObjectURL
            (handleGenerate this ua createObjectURL (s, w)))))
       = [ImageGenerationBody (handleGenerate_request s), ImageGenerationBody (handleGenerate_request s)]"
    by (simp add: first calls_made_def handleGenerate_calls [OF s1(2)] s1(1) w1 req_body_mk_request)
  have e: "handleGenerate_request (s\<lparr>image_model := m\<rparr>) = (handleGenerate_request s)\<lparr>ig_model := Some m\<rparr>"
    by (simp add: handleGenerate_request_def)
  from a b c d e show ?thesis by blast
qed

theorem payload_depends_on_request_only_witness:
  "js_trim (prompt prompting_hi) \<noteq> []
   \<and> map req_body (calls_made World_empty (snd (handleGenerate local_client (always_answers picture) (\<lambda>b. ''blob:1'')
        (handleGenerate local_client (always_fails timed_out) (\<lambda>b. ''blob:1'') (prompting_hi, World_empty)))))
     = [ImageGenerationBody (handleGenerate_request prompting_hi),
        ImageGenerationBody (handleGenerate_request prompting_hi)]
   \<and> handleGenerate_request (prompting_hi\<lparr>image_model := ''B''\<rparr>)
     = (handleGenerate_request prompting_hi)\<lparr>ig_model := Some ''B''\<rparr>"
  using prompting_hi_nonblank
    payload_depends_on_request_only [OF prompting_hi_nonblank, where w = World_empty and this = local_client
      and ua = "always_fails timed_out" and ub = "always_answers picture"
      and createObjectURL = "\<lambda>b. ''blob:1''" and w' = World_empty and this' = local_client
      and ta = "always_answers picture" and tb = "always_answers picture" and toString = "\<lambda>n. ''5''"
      and imageFile = upload and r = animate_request and m = "''B''"]
  by blast

section \<open>The Chat page: loading the models\<close>

text \<open>
  C9. When the Chat page mounts, its effect calls \<open>apiClient.getModels()\<close>. The class
  \<open>APIClient\<close> has no member of that name, so the call throws, whatever such a member
  would do: the catch branch logs the error and shows the toast, and nothing else
  changes. From the initial state of the page, \<open>availableModels\<close> is still the empty
  list, \<open>model\<close> is still the empty string and the model selector is disabled.
\<close>

theorem chat_mount_getModels_fails:
  "''getModels'' \<notin> set APIClient_members
   \<and> fetchModels getModels_impl (s, w) =
       (s, toast ToastError (JString ''Failed to load available models from server.'')
             (console_error ''Failed to fetch models:''
                (LogError (TypeError ''apiClient.getModels is not a function'')) w))
   \<and> availableModels (fst (fetchModels getModels_impl (Chat_initial, w))) = []
   \<and> chat_model (fst (fetchModels getModels_impl (Chat_initial, w))) = []
   \<and> select_disabled (fst (fetchModels getModels_impl (Chat_initial, w)))"
  by (simp add: fetchModels_def call_member_def getModels_not_member Chat_initial_def
        select_disabled_def)

section \<open>The Chat page: sending a message\<close>

text \<open>
  C10. In \<open>handleSend\<close> with a message to send (the input is not blank): if the
  \<open>generateText\<close> call rejects, for whatever reason, the messages after the handler are
  the messages before it (the user message appended at the start is removed again and
  no assistant message is added); if it resolves, exactly the user message and then
  the assistant message, with the response's text, have been appended.
\<close>

theorem handleSend_messages:
  assumes "js_trim (input s) \<noteq> []"
  shows "messages (fst (handleSend this transport (s, w))) =
     (case fst (generateText this transport (handleSend_request s \<lparr>role = User, content = input s\<rparr>) w) of
        Inl error \<Rightarrow> messages s
      | Inr resp \<Rightarrow> messages s @ [\<lparr>role = User, content = input s\<rparr>,
                                     \<lparr>role = Assistant, content = response resp\<rparr>])"
  using assms
  by (simp add: handleSend_def Let_def slice_snoc split: prod.splits sum.splits)

theorem handleSend_messages_witness:
  "js_trim (input (typing_hi ''A'')) \<noteq> []
   \<and> messages (fst (handleSend local_client (always_fails service_unavailable) (typing_hi ''A'', World_empty)))
       = messages (typing_hi ''A'')
   \<and> messages (fst (handleSend local_client (always_answers greeting) (typing_hi ''A'', World_empty)))
       = messages (typing_hi ''A'') @
           [\<lparr>role = User, content = ''hi''\<rparr>, \<lparr>role = Assistant, content = ''Hello!''\<rparr>]"
proof -
  have failing:
    "fst (generateText local_client (always_fails service_unavailable)
            (handleSend_request (typing_hi ''A'') \<lparr>role = User, content = input (typing_hi ''A'')\<rparr>) World_empty)
     = Inl (AxiosErr service_unavailable)"
    by (simp add: generateText_def send_result always_fails_def)
  have succeeding:
    "fst (generateText local_client (always_answers greeting)
            (handleSend_request (typing_hi ''A'') \<lparr>role = User, content = input (typing_hi ''A'')\<rparr>) World_empty)
     = Inr greeting"
    by (simp add: generateText_def send_result always_answers_def)
  show ?thesis
    using typing_hi_nonblank [of "''A''"]
      handleSend_messages [OF typing_hi_nonblank [of "''A''"], where this = local_client
        and transport = "always_fails service_unavailable" and w = World_empty]
      handleSend_messages [OF typing_hi_nonblank [of "''A''"], where this = local_client
        and transport = "always_answers greeting" and w = World_empty]
    by (simp add: failing succeeding) (simp add: typing_hi_def greeting_def)
qed

end
